theory Spec2Isabelle
  imports Main
begin

section \<open>Application bootstrap configuration (src/app/app.config.ts)\<close>

text \<open>
  The module exports one constant, \<open>appConfig\<close>, an object literal whose only property
  \<open>providers\<close> is an array of nine call expressions.  Every callee is imported from the
  framework, none is defined in the repository, so the result of a call is kept symbolic:
  the name of the callee and the values of its arguments, in order.  The module reads two
  things from outside: the result of \<open>isDevMode()\<close> and the imported constant
  \<open>routes\<close>; both are parameters of the model.  The route table is defined in another
  module, so its element type is a type parameter.
\<close>

subsection \<open>Values\<close>

datatype 'r jsval =
    Call string "'r jsval list"
  | Obj "(string \<times> 'r jsval) list"
  | Num int
  | Bool bool
  | Routes "'r list"

record 'r ApplicationConfig =
  providers :: "'r jsval list"

subsection \<open>The imported functions\<close>

definition provideBrowserGlobalErrorListeners :: "'r jsval list \<Rightarrow> 'r jsval" where
  "provideBrowserGlobalErrorListeners args = Call ''provideBrowserGlobalErrorListeners'' args"

definition provideZonelessChangeDetection :: "'r jsval list \<Rightarrow> 'r jsval" where
  "provideZonelessChangeDetection args = Call ''provideZonelessChangeDetection'' args"

definition provideRouter :: "'r jsval list \<Rightarrow> 'r jsval" where
  "provideRouter args = Call ''provideRouter'' args"

definition provideClientHydration :: "'r jsval list \<Rightarrow> 'r jsval" where
  "provideClientHydration args = Call ''provideClientHydration'' args"

definition withEventReplay :: "'r jsval list \<Rightarrow> 'r jsval" where
  "withEventReplay args = Call ''withEventReplay'' args"

definition provideHttpClient :: "'r jsval list \<Rightarrow> 'r jsval" where
  "provideHttpClient args = Call ''provideHttpClient'' args"

definition withFetch :: "'r jsval list \<Rightarrow> 'r jsval" where
  "withFetch args = Call ''withFetch'' args"

definition provideStore :: "'r jsval list \<Rightarrow> 'r jsval" where
  "provideStore args = Call ''provideStore'' args"

definition provideEffects :: "'r jsval list \<Rightarrow> 'r jsval" where
  "provideEffects args = Call ''provideEffects'' args"

definition provideStoreDevtools :: "'r jsval list \<Rightarrow> 'r jsval" where
  "provideStoreDevtools args = Call ''provideStoreDevtools'' args"

definition providePrimeNG :: "'r jsval list \<Rightarrow> 'r jsval" where
  "providePrimeNG args = Call ''providePrimeNG'' args"

subsection \<open>The exported constant\<close>

text \<open>
  \<open>appConfig isDevMode routes\<close> is the value of the object literal of lines 19 to 31 when
  \<open>isDevMode()\<close> returns \<open>isDevMode\<close> and the imported route table is \<open>routes\<close>.
\<close>

definition appConfig :: "bool \<Rightarrow> 'r list \<Rightarrow> 'r ApplicationConfig" where
  "appConfig isDevMode routes = \<lparr> providers = [
     provideBrowserGlobalErrorListeners [],
     provideZonelessChangeDetection [],
     provideRouter [Routes routes],
     provideClientHydration [withEventReplay []],
     providePrimeNG [],
     provideStore [],
     provideEffects [],
     provideStoreDevtools [Obj [(''maxAge'', Num 25), (''logOnly'', Bool (\<not> isDevMode))]],
     provideHttpClient [withFetch []]
   ] \<rparr>"

subsection \<open>Reading the record\<close>

fun callee :: "'r jsval \<Rightarrow> string option" where
  "callee (Call f args) = Some f"
| "callee (Obj fs) = None"
| "callee (Num n) = None"
| "callee (Bool b) = None"
| "callee (Routes rs) = None"

fun arguments :: "'r jsval \<Rightarrow> 'r jsval list" where
  "arguments (Call f args) = args"
| "arguments (Obj fs) = []"
| "arguments (Num n) = []"
| "arguments (Bool b) = []"
| "arguments (Routes rs) = []"

text \<open>The properties of an object literal, in the order they are written.\<close>

fun properties :: "'r jsval \<Rightarrow> (string \<times> 'r jsval) list" where
  "properties (Obj fs) = fs"
| "properties (Call f args) = []"
| "properties (Num n) = []"
| "properties (Bool b) = []"
| "properties (Routes rs) = []"

text \<open>
  Property access: in an object literal a later property with the same key overrides an
  earlier one, so the lookup runs over the reversed list.
\<close>

definition property :: "string \<Rightarrow> 'r jsval \<Rightarrow> 'r jsval option" where
  "property k v = map_of (rev (properties v)) k"

fun isCallTo :: "string \<Rightarrow> 'r jsval \<Rightarrow> bool" where
  "isCallTo f v = (callee v = Some f)"

text \<open>The entries of the providers array that are calls of the function named \<open>f\<close>.\<close>

definition entriesOf :: "string \<Rightarrow> 'r ApplicationConfig \<Rightarrow> 'r jsval list" where
  "entriesOf f cfg = filter (isCallTo f) (providers cfg)"

text \<open>The argument lists handed to the devtools provider, one per devtools entry.\<close>

definition devtoolsOptions :: "'r ApplicationConfig \<Rightarrow> 'r jsval list" where
  "devtoolsOptions cfg = concat (map arguments (entriesOf ''provideStoreDevtools'' cfg))"

text \<open>
  A field of the devtools options, read from each options object handed to the devtools
  provider.
\<close>

definition devtoolsField :: "string \<Rightarrow> 'r ApplicationConfig \<Rightarrow> 'r jsval option list" where
  "devtoolsField k cfg = map (property k) (devtoolsOptions cfg)"

definition devtoolsFieldNames :: "'r ApplicationConfig \<Rightarrow> string list list" where
  "devtoolsFieldNames cfg = map (\<lambda>v. map fst (properties v)) (devtoolsOptions cfg)"

subsection \<open>The options of the interface table\<close>

text \<open>
  The eight options the specification's interface table recognises, and the option each
  provider function belongs to according to that table.  The table has one row for the
  state container and its effects subsystem together.
\<close>

datatype config_option =
    GlobalErrorListeners
  | ChangeDetectionMode
  | Router
  | HydrationEventReplay
  | UiLibraryDefaults
  | StateContainerEffects
  | Devtools
  | HttpTransport

definition optionTable :: "(string \<times> config_option) list" where
  "optionTable = [
     (''provideBrowserGlobalErrorListeners'', GlobalErrorListeners),
     (''provideZonelessChangeDetection'', ChangeDetectionMode),
     (''provideRouter'', Router),
     (''provideClientHydration'', HydrationEventReplay),
     (''providePrimeNG'', UiLibraryDefaults),
     (''provideStore'', StateContainerEffects),
     (''provideEffects'', StateContainerEffects),
     (''provideStoreDevtools'', Devtools),
     (''provideHttpClient'', HttpTransport)
   ]"

fun optionOf :: "'r jsval \<Rightarrow> config_option option" where
  "optionOf (Call f args) = map_of optionTable f"
| "optionOf (Obj fs) = None"
| "optionOf (Num n) = None"
| "optionOf (Bool b) = None"
| "optionOf (Routes rs) = None"

fun belongsTo :: "config_option \<Rightarrow> 'r jsval \<Rightarrow> bool" where
  "belongsTo opt v = (optionOf v = Some opt)"

definition entriesFor :: "config_option \<Rightarrow> 'r ApplicationConfig \<Rightarrow> 'r jsval list" where
  "entriesFor opt cfg = filter (belongsTo opt) (providers cfg)"

subsection \<open>Change detection\<close>

text \<open>
  The two change-detection modes of the data model, and the mode a providers entry
  selects: the framework's \<open>provideZonelessChangeDetection\<close> selects the zone-free mode,
  its \<open>provideZoneChangeDetection\<close> the zone-based one, any other entry selects none.
\<close>

datatype change_detection = ZoneBased | ZoneFree

fun changeDetectionOf :: "'r jsval \<Rightarrow> change_detection option" where
  "changeDetectionOf (Call f args) =
     (if f = ''provideZonelessChangeDetection'' then Some ZoneFree
      else if f = ''provideZoneChangeDetection'' then Some ZoneBased
      else None)"
| "changeDetectionOf (Obj fs) = None"
| "changeDetectionOf (Num n) = None"
| "changeDetectionOf (Bool b) = None"
| "changeDetectionOf (Routes rs) = None"

definition changeDetectionModes :: "'r ApplicationConfig \<Rightarrow> change_detection list" where
  "changeDetectionModes cfg = List.map_filter changeDetectionOf (providers cfg)"

section \<open>Properties\<close>

subsection \<open>Helper facts\<close>

lemmas imported_defs =
  provideBrowserGlobalErrorListeners_def provideZonelessChangeDetection_def
  provideRouter_def provideClientHydration_def withEventReplay_def
  provideHttpClient_def withFetch_def provideStore_def provideEffects_def
  provideStoreDevtools_def providePrimeNG_def

lemma providers_appConfig:
  "providers (appConfig d rs) = [
     Call ''provideBrowserGlobalErrorListeners'' [],
     Call ''provideZonelessChangeDetection'' [],
     Call ''provideRouter'' [Routes rs],
     Call ''provideClientHydration'' [Call ''withEventReplay'' []],
     Call ''providePrimeNG'' [],
     Call ''provideStore'' [],
     Call ''provideEffects'' [],
     Call ''provideStoreDevtools'' [Obj [(''maxAge'', Num 25), (''logOnly'', Bool (\<not> d))]],
     Call ''provideHttpClient'' [Call ''withFetch'' []]
   ]"
  by (simp add: appConfig_def imported_defs)

lemma devtoolsOptions_appConfig:
  "devtoolsOptions (appConfig d rs) = [Obj [(''maxAge'', Num 25), (''logOnly'', Bool (\<not> d))]]"
  by (simp add: devtoolsOptions_def entriesOf_def providers_appConfig)

subsection \<open>Devtools options\<close>

text \<open>
  C1.  The devtools \<open>logOnly\<close> field is the negation of the development-build predicate:
  there is one devtools options object, and its \<open>logOnly\<close> is \<open>false\<close> when
  \<open>isDevMode()\<close> is \<open>true\<close> and \<open>true\<close> when it is \<open>false\<close>.
\<close>

theorem devtools_logOnly:
  "devtoolsField ''logOnly'' (appConfig isDevMode routes) = [Some (Bool (\<not> isDevMode))]"
  by (simp add: devtoolsField_def devtoolsOptions_appConfig property_def)

text \<open>
  C2.  The devtools \<open>maxAge\<close> field is 25 whatever \<open>isDevMode()\<close> returns.
\<close>

theorem devtools_maxAge:
  "devtoolsField ''maxAge'' (appConfig isDevMode routes) = [Some (Num 25)]"
  by (simp add: devtoolsField_def devtoolsOptions_appConfig property_def)

text \<open>
  C10.  The options object handed to the devtools provider has exactly the two fields
  \<open>maxAge\<close> and \<open>logOnly\<close>, and it is the only argument of the only devtools entry.
\<close>

theorem devtools_fields:
  "devtoolsFieldNames (appConfig isDevMode routes) = [[''maxAge'', ''logOnly'']]
   \<and> map arguments (entriesOf ''provideStoreDevtools'' (appConfig isDevMode routes))
       = [[Obj [(''maxAge'', Num 25), (''logOnly'', Bool (\<not> isDevMode))]]]"
  by (simp add: devtoolsFieldNames_def devtoolsOptions_appConfig entriesOf_def
      providers_appConfig)

subsection \<open>Shape of the providers array\<close>

text \<open>
  C3, as stated, fails: the option "state container / effects" of the interface table has
  two entries in the providers array, not one.
\<close>

theorem state_container_two_entries:
  "\<not> (length (entriesFor StateContainerEffects (appConfig True [''home''])) = 1)"
  by (simp add: entriesFor_def providers_appConfig optionTable_def)

text \<open>
  C3, amended.  The providers array has nine pairwise different entries.  Every entry
  belongs to one of the eight options of the interface table and every option has an entry:
  the option "state container / effects" has two, the call of \<open>provideStore\<close> followed by
  the call of \<open>provideEffects\<close>, and each of the other seven has exactly one.
\<close>

theorem providers_cover_options:
  "map optionOf (providers (appConfig isDevMode routes))
     = [Some GlobalErrorListeners, Some ChangeDetectionMode, Some Router,
        Some HydrationEventReplay, Some UiLibraryDefaults, Some StateContainerEffects,
        Some StateContainerEffects, Some Devtools, Some HttpTransport]
   \<and> distinct (providers (appConfig isDevMode routes))
   \<and> entriesFor StateContainerEffects (appConfig isDevMode routes)
       = [provideStore [], provideEffects []]
   \<and> (\<forall>opt. length (entriesFor opt (appConfig isDevMode routes))
         = (if opt = StateContainerEffects then 2 else 1))"
proof -
  let ?cfg = "appConfig isDevMode routes"
  have a: "map optionOf (providers ?cfg)
     = [Some GlobalErrorListeners, Some ChangeDetectionMode, Some Router,
        Some HydrationEventReplay, Some UiLibraryDefaults, Some StateContainerEffects,
        Some StateContainerEffects, Some Devtools, Some HttpTransport]"
    by (simp add: providers_appConfig optionTable_def)
  have b: "distinct (providers ?cfg)"
    by (simp add: providers_appConfig)
  have c: "entriesFor StateContainerEffects ?cfg = [provideStore [], provideEffects []]"
    by (simp add: entriesFor_def providers_appConfig optionTable_def
        provideStore_def provideEffects_def)
  have d: "length (entriesFor opt ?cfg) = (if opt = StateContainerEffects then 2 else 1)"
    for opt
    by (cases opt) (simp_all add: entriesFor_def providers_appConfig optionTable_def)
  from a b c d show ?thesis
    by blast
qed

text \<open>
  C4.  The providers array has one HTTP client entry, and the only feature handed to it
  is \<open>withFetch()\<close>, for every answer of \<open>isDevMode()\<close> and every route table.
\<close>

theorem http_client_with_fetch:
  "map arguments (entriesOf ''provideHttpClient'' (appConfig isDevMode routes))
     = [[withFetch []]]"
  by (simp add: entriesOf_def providers_appConfig withFetch_def)

text \<open>
  C6.  The only change-detection mode the providers array selects is the zone-free one;
  the zone-based mode is not selected.
\<close>

theorem change_detection_zoneless:
  "changeDetectionModes (appConfig isDevMode routes) = [ZoneFree]
   \<and> entriesOf ''provideZoneChangeDetection'' (appConfig isDevMode routes) = []"
  by (simp add: changeDetectionModes_def entriesOf_def providers_appConfig)

text \<open>
  C7.  The providers array has one client hydration entry, and it is handed the event
  replay feature \<open>withEventReplay()\<close>.
\<close>

theorem hydration_with_event_replay:
  "map arguments (entriesOf ''provideClientHydration'' (appConfig isDevMode routes))
     = [[withEventReplay []]]"
  by (simp add: entriesOf_def providers_appConfig withEventReplay_def)

text \<open>
  C9.  The store entry and the effects entry are each present once and are called with no
  argument: no root reducers and no root effect handlers are handed over at bootstrap.
\<close>

theorem store_and_effects_without_arguments:
  "map arguments (entriesOf ''provideStore'' (appConfig isDevMode routes)) = [[]]
   \<and> map arguments (entriesOf ''provideEffects'' (appConfig isDevMode routes)) = [[]]"
  by (simp add: entriesOf_def providers_appConfig)

end
